theory Spec2Isabelle
  imports Complex_Main "HOL-Library.Sublist"
begin

section \<open>Go values used by the weather sensor adapter\<close>

subsection \<open>float64\<close>

text \<open>
  Go's \<^verbatim>\<open>float64\<close> is IEEE 754 binary64. A finite value is kept as the rational it
  denotes (\<open>Fin 0\<close> is \<open>+0\<close>), with the negative zero, the two infinities and NaN beside
  it. Every arithmetic operation computes the exact rational result and rounds it to the
  nearest binary64 value, ties to even: 53 bits of precision, exponents from \<open>-1022\<close>
  to \<open>1023\<close>, subnormals spaced \<open>2^-1074\<close> apart, overflow to an infinity.
\<close>

datatype float64 = Fin rat | NegZero | PosInf | NegInf | NaN

text \<open>\<open>bits n\<close> is the length of the binary numeral of \<open>n > 0\<close>.\<close>

function bits :: "int \<Rightarrow> int" where
  "bits n = (if n \<le> 0 then 0 else 1 + bits (n div 2))"
  by pat_completeness auto
termination
  by (relation "measure nat") auto

definition pow2 :: "int \<Rightarrow> rat" where
  "pow2 e = (if 0 \<le> e then 2 ^ nat e else 1 / 2 ^ nat (- e))"

text \<open>\<open>ilog2 a\<close> is the exponent \<open>e\<close> with \<open>2^e \<le> a < 2^(e+1)\<close>, for \<open>a > 0\<close>.\<close>

definition ilog2 :: "rat \<Rightarrow> int" where
  "ilog2 a =
     (let (p, q) = quotient_of a;
          k = bits p - bits q
      in if pow2 k \<le> a then k else k - 1)"

definition round_half_even :: "rat \<Rightarrow> int" where
  "round_half_even x =
     (let f = \<lfloor>x\<rfloor>; d = x - of_int f
      in if d < 1 / 2 then f
         else if 1 / 2 < d then f + 1
         else if even f then f else f + 1)"

definition signed_inf :: "bool \<Rightarrow> float64" where
  "signed_inf neg = (if neg then NegInf else PosInf)"

definition signed_zero :: "bool \<Rightarrow> float64" where
  "signed_zero neg = (if neg then NegZero else Fin 0)"

text \<open>\<open>f64_round neg a\<close> rounds the magnitude \<open>a \<ge> 0\<close> and attaches the sign.\<close>

definition f64_round :: "bool \<Rightarrow> rat \<Rightarrow> float64" where
  "f64_round neg a =
     (if a = 0 then signed_zero neg
      else
        let e = max (ilog2 a) (- 1022);
            ulp = pow2 (e - 52);
            m = round_half_even (a / ulp);
            v = of_int m * ulp
        in if pow2 1024 \<le> v then signed_inf neg
           else if m = 0 then signed_zero neg
           else Fin (if neg then - v else v))"

fun f64_neg :: "float64 \<Rightarrow> bool" where
  "f64_neg (Fin r) = (r < 0)"
| "f64_neg NegZero = True"
| "f64_neg NegInf = True"
| "f64_neg PosInf = False"
| "f64_neg NaN = False"

fun f64_abs :: "float64 \<Rightarrow> rat" where
  "f64_abs (Fin r) = \<bar>r\<bar>"
| "f64_abs x = 0"

fun f64_val :: "float64 \<Rightarrow> rat" where
  "f64_val (Fin r) = r"
| "f64_val x = 0"

definition f64_is_inf :: "float64 \<Rightarrow> bool" where
  "f64_is_inf x = (x = PosInf \<or> x = NegInf)"

definition f64_is_zero :: "float64 \<Rightarrow> bool" where
  "f64_is_zero x = (x = Fin 0 \<or> x = NegZero)"

definition f64_mul :: "float64 \<Rightarrow> float64 \<Rightarrow> float64" where
  "f64_mul x y =
     (let neg = (f64_neg x \<noteq> f64_neg y)
      in if x = NaN \<or> y = NaN then NaN
         else if f64_is_inf x then (if f64_is_zero y then NaN else signed_inf neg)
         else if f64_is_inf y then (if f64_is_zero x then NaN else signed_inf neg)
         else f64_round neg (f64_abs x * f64_abs y))"

definition f64_div :: "float64 \<Rightarrow> float64 \<Rightarrow> float64" where
  "f64_div x y =
     (let neg = (f64_neg x \<noteq> f64_neg y)
      in if x = NaN \<or> y = NaN then NaN
         else if f64_is_inf x then (if f64_is_inf y then NaN else signed_inf neg)
         else if f64_is_inf y then signed_zero neg
         else if f64_is_zero y then (if f64_is_zero x then NaN else signed_inf neg)
         else f64_round neg (f64_abs x / f64_abs y))"

definition f64_add :: "float64 \<Rightarrow> float64 \<Rightarrow> float64" where
  "f64_add x y =
     (if x = NaN \<or> y = NaN then NaN
      else if f64_is_inf x then (if f64_is_inf y \<and> x \<noteq> y then NaN else x)
      else if f64_is_inf y then y
      else if x = NegZero \<and> y = NegZero then NegZero
      else
        let s = f64_val x + f64_val y
        in if s = 0 then Fin 0 else f64_round (s < 0) \<bar>s\<bar>)"

subsection \<open>Interface values, maps and errors\<close>

text \<open>
  A value of type \<^verbatim>\<open>any\<close>. Decoding JSON yields \<open>VNil\<close> (null), \<open>VBool\<close>,
  \<open>VFloat64\<close> (every JSON number), \<open>VString\<close>, \<open>VSlice\<close> (array) and \<open>VMap\<close>
  (object, a \<^verbatim>\<open>map[string]any\<close>); \<open>VOther t\<close> stands for a value of any other dynamic
  type \<open>t\<close>, which only the dependency sensor can hand over.
\<close>

datatype any =
    VNil
  | VBool bool
  | is_VFloat64: VFloat64 (un_VFloat64: float64)
  | VString string
  | VSlice "any list"
  | is_VMap: VMap (un_VMap: "string \<Rightarrow> any option")
  | VOther string

text \<open>A variable of type \<^verbatim>\<open>map[string]any\<close>: \<open>None\<close> is the nil map.\<close>

type_synonym gomap = "(string \<Rightarrow> any option) option"

text \<open>
  An error value is kept as the call that built it: the format string with its operands
  for \<^verbatim>\<open>fmt.Errorf\<close> and \<^verbatim>\<open>errors.Errorf\<close>, the wrapped cause for
  \<^verbatim>\<open>errors.Wrapf\<close>. \<open>Foreign\<close> is an error made outside this package (net/http, io,
  encoding/json, the dependency sensor, the host framework).
\<close>

datatype fmtarg = AInt int | AString string | AAny any

datatype error =
    Errorf string "fmtarg list"
  | Wrapf error string "fmtarg list"
  | UnmarshalTypeError
  | Foreign string

datatype panic = TypeAssertion string | NilDereference

datatype 'a outcome = Return 'a | Panic panic

text \<open>\<^verbatim>\<open>v, ok := m[k]\<close> and \<^verbatim>\<open>m[k]\<close>; both are defined on the nil map.\<close>

definition lookup :: "gomap \<Rightarrow> string \<Rightarrow> any option" where
  "lookup m k = (case m of None \<Rightarrow> None | Some f \<Rightarrow> f k)"

definition index :: "gomap \<Rightarrow> string \<Rightarrow> any" where
  "index m k = (case lookup m k of None \<Rightarrow> VNil | Some v \<Rightarrow> v)"

text \<open>The type assertions \<^verbatim>\<open>v.(map[string]any)\<close> and \<^verbatim>\<open>v.(float64)\<close>.\<close>

fun assert_map :: "any \<Rightarrow> (string \<Rightarrow> any option) outcome" where
  "assert_map (VMap m) = Return m"
| "assert_map v = Panic (TypeAssertion ''map[string]interface {}'')"

fun assert_float64 :: "any \<Rightarrow> float64 outcome" where
  "assert_float64 (VFloat64 x) = Return x"
| "assert_float64 v = Panic (TypeAssertion ''float64'')"

text \<open>The verb \<^verbatim>\<open>%d\<close> of \<^verbatim>\<open>fmt.Sprintf\<close> on an \<^verbatim>\<open>int\<close>.\<close>

fun decimal :: "nat \<Rightarrow> string" where
  "decimal n =
     (if n < 10 then [''0123456789'' ! n]
      else decimal (n div 10) @ [''0123456789'' ! (n mod 10)])"

definition itoa :: "int \<Rightarrow> string" where
  "itoa i = (if i < 0 then CHR ''-'' # decimal (nat (- i)) else decimal (nat i))"

section \<open>Configuration\<close>

record Config =
  TemperatureSensor :: string
  Zipcode :: int
  APIKey :: string

text \<open>\<^verbatim>\<open>func (cfg *Config) Validate(path string) ([]string, []string, error)\<close>\<close>

definition Validate ::
  "Config \<Rightarrow> string \<Rightarrow> string list option \<times> string list option \<times> error option" where
  \<open>Validate cfg path =
     (if TemperatureSensor cfg = ''''
      then (None, None, Some (Errorf ''expected "temp-sensor" attribute for weather module'' []))
      else if APIKey cfg = ''''
      then (None, None, Some (Errorf ''expected "apikey" attribute for weather module'' []))
      else if Zipcode cfg = 0
      then (None, None, Some (Errorf ''expected "zipcode" attribute for weather module'' []))
      else (Some [TemperatureSensor cfg], None, None))\<close>

section \<open>The adapter and its surroundings\<close>

text \<open>
  The dependency sensor is a component of the host, named by its resource name; a
  \<^verbatim>\<open>context.Context\<close> is only passed on.
\<close>

datatype sensor = Sensor string

datatype context_Context = Context string

text \<open>
  The fields of \<^verbatim>\<open>weathersensorWeathersensor\<close> that the methods below read or
  write. \<open>temperatureSensor\<close> is an interface value and may be nil.
\<close>

record weathersensorWeathersensor =
  name :: string
  cfg :: "Config option"
  temperatureSensor :: "sensor option"
  apiKey :: string
  zipcode :: int

text \<open>
  The body of an HTTP response, as \<^verbatim>\<open>encoding/json\<close> sees it: \<open>Rejected e\<close> is a body
  for which the decoder returns the error \<open>e\<close> whatever it decodes into, because the
  bytes are no JSON text or because the text, well formed as it is, holds a number outside
  float64 somewhere, also inside an object; \<open>JSON v\<close> is the text of a JSON value that
  decodes to \<open>v\<close>.
\<close>

datatype body = Rejected error | JSON any

record response =
  StatusCode :: int
  Body :: "error + body"

text \<open>
  Everything outside the adapter: what \<^verbatim>\<open>http.NewRequest\<close> says about a URL, what
  \<^verbatim>\<open>client.Do\<close> gets for it (\<open>Body\<close> is the result of \<^verbatim>\<open>io.ReadAll\<close>), the
  date \<^verbatim>\<open>time.Now().Format("2006-01-02")\<close>, and the reading operation of the host's
  sensors.
\<close>

record world =
  http_NewRequest :: "string \<Rightarrow> error option"
  client_Do :: "string \<Rightarrow> error + response"
  time_Now :: string
  sensor_Readings :: "sensor \<Rightarrow> context_Context \<Rightarrow> gomap \<Rightarrow> gomap \<times> error option"

text \<open>The calls that leave the adapter, in the order they are made.\<close>

datatype event =
    is_HTTPGet: HTTPGet string
  | is_SensorReadings: SensorReadings (callee: sensor) (ctx_arg: context_Context) (extra_arg: gomap)

text \<open>
  \<^verbatim>\<open>json.Unmarshal(body, &responseJSON)\<close> with \<^verbatim>\<open>responseJSON\<close> a nil
  \<^verbatim>\<open>map[string]interface{}\<close>: an object fills a new map; the JSON value null
  leaves the map nil and is no error; any other value is an
  \<^verbatim>\<open>UnmarshalTypeError\<close>.
\<close>

fun json_Unmarshal :: "body \<Rightarrow> gomap \<times> error option" where
  "json_Unmarshal (Rejected e) = (None, Some e)"
| "json_Unmarshal (JSON VNil) = (None, None)"
| "json_Unmarshal (JSON (VMap m)) = (Some m, None)"
| "json_Unmarshal (JSON v) = (None, Some UnmarshalTypeError)"

definition currentWeatherURL :: string where
  "currentWeatherURL = ''https://api.weatherapi.com/v1/current.json''"

definition astronomyURL :: string where
  "astronomyURL = ''https://api.weatherapi.com/v1/astronomy.json''"

text \<open>
  \<^verbatim>\<open>getWeatherBodyOrCode\<close> returns the pair \<^verbatim>\<open>(map[string]any, error)\<close> and the
  calls it made. The messages written to the logger are left out.
\<close>

definition getWeatherBodyOrCode ::
  "world \<Rightarrow> string \<Rightarrow> (gomap \<times> error option) \<times> event list" where
  "getWeatherBodyOrCode w url =
     (case http_NewRequest w url of
        Some err \<Rightarrow> ((None, Some err), [])
      | None \<Rightarrow>
          (case client_Do w url of
             Inl err \<Rightarrow> ((None, Some err), [HTTPGet url])
           | Inr resp \<Rightarrow>
               (case Body resp of
                  Inl err \<Rightarrow> ((None, Some err), [HTTPGet url])
                | Inr body \<Rightarrow>
                    (case json_Unmarshal body of
                       (_, Some err) \<Rightarrow> ((None, Some err), [HTTPGet url])
                     | (responseJSON, None) \<Rightarrow>
                         if StatusCode resp \<noteq> 200 then
                           (case lookup responseJSON ''code'' of
                              None \<Rightarrow>
                                ((None, Some (Errorf
                                   ''request failed with code %d, and no code in response body''
                                   [AInt (StatusCode resp)])), [HTTPGet url])
                            | Some code \<Rightarrow>
                                (case lookup responseJSON ''message'' of
                                   None \<Rightarrow>
                                     ((None, Some (Errorf
                                        ''request failed with code %d, and no message in response body''
                                        [AInt (StatusCode resp)])), [HTTPGet url])
                                 | Some message \<Rightarrow>
                                     ((responseJSON, Some (Errorf
                                        ''error fetching weather info, code: %d, message: %s''
                                        [AAny code, AAny message])), [HTTPGet url])))
                         else ((responseJSON, None), [HTTPGet url])))))"

text \<open>
  The URLs that \<^verbatim>\<open>getCurrentWeather\<close> and \<^verbatim>\<open>getCurrentAstronomy\<close> format with
  \<^verbatim>\<open>fmt.Sprintf\<close> from the zipcode, the date and the API key, and the two fetches.
\<close>

definition getCurrentWeatherURL :: "weathersensorWeathersensor \<Rightarrow> string" where
  "getCurrentWeatherURL s = currentWeatherURL @ ''?q='' @ itoa (zipcode s) @ ''&key='' @ apiKey s"

definition getCurrentAstronomyURL :: "world \<Rightarrow> weathersensorWeathersensor \<Rightarrow> string" where
  "getCurrentAstronomyURL w s =
     astronomyURL @ ''?q='' @ itoa (zipcode s) @ ''&dt='' @ time_Now w @ ''&key='' @ apiKey s"

definition getCurrentWeather ::
  "world \<Rightarrow> weathersensorWeathersensor \<Rightarrow> (gomap \<times> error option) \<times> event list" where
  "getCurrentWeather w s = getWeatherBodyOrCode w (getCurrentWeatherURL s)"

definition getCurrentAstronomy ::
  "world \<Rightarrow> weathersensorWeathersensor \<Rightarrow> (gomap \<times> error option) \<times> event list" where
  "getCurrentAstronomy w s = getWeatherBodyOrCode w (getCurrentAstronomyURL w s)"

text \<open>
  \<^verbatim>\<open>Readings(ctx, extra)\<close>: the pair \<^verbatim>\<open>(map[string]interface{}, error)\<close> it returns,
  or the panic that ends it, and the calls it made. The assignments to \<^verbatim>\<open>output\<close>
  are the map updates, in the order of the source.
\<close>

definition Readings ::
  "world \<Rightarrow> weathersensorWeathersensor \<Rightarrow> context_Context \<Rightarrow> gomap \<Rightarrow>
     (gomap \<times> error option) outcome \<times> event list" where
  "Readings w s ctx extra =
     (let output = Map.empty;
          ((response, err), t1) = getCurrentWeather w s
      in case err of
           Some e \<Rightarrow> (Return (None, Some e), t1)
         | None \<Rightarrow>
     (let ((astronomyResponse, err), t2) = getCurrentAstronomy w s
      in case err of
           Some e \<Rightarrow> (Return (None, Some e), t1 @ t2)
         | None \<Rightarrow>
     (case assert_map (index response ''current'') of
        Panic p \<Rightarrow> (Panic p, t1 @ t2)
      | Return currentWeather \<Rightarrow>
     (let output = output(''outside_f'' \<mapsto> index (Some currentWeather) ''temp_f'')
      in case assert_map (index (Some currentWeather) ''condition'') of
        Panic p \<Rightarrow> (Panic p, t1 @ t2)
      | Return condition \<Rightarrow>
     (let output = output(''condition'' \<mapsto> index (Some condition) ''text'');
          output = output(''code'' \<mapsto> index (Some condition) ''code'')
      in case assert_float64 (index (Some currentWeather) ''cloud'') of
        Panic p \<Rightarrow> (Panic p, t1 @ t2)
      | Return cloud \<Rightarrow>
     (let output = output(''cloud_cover_pct'' \<mapsto> VFloat64 cloud);
          output = output(''precipitation_inches'' \<mapsto> index (Some currentWeather) ''precip_in'')
      in case assert_map (index astronomyResponse ''astronomy'') of
        Panic p \<Rightarrow> (Panic p, t1 @ t2)
      | Return astronomy0 \<Rightarrow>
     (case assert_map (index (Some astronomy0) ''astro'') of
        Panic p \<Rightarrow> (Panic p, t1 @ t2)
      | Return astronomy \<Rightarrow>
     (let output = output(''is_day'' \<mapsto> index (Some astronomy) ''is_sun_up'')
      in case temperatureSensor s of
        None \<Rightarrow> (Panic NilDereference, t1 @ t2)
      | Some ts \<Rightarrow>
     (let (readings, err) = sensor_Readings w ts ctx None;
          t3 = [SensorReadings ts ctx None]
      in case err of
        Some e \<Rightarrow>
          (Return (None, Some (Wrapf e ''error getting reading from temp sensor'' [])),
           t1 @ t2 @ t3)
      | None \<Rightarrow>
     (case assert_float64 (index readings ''degrees_celsius'') of
        Panic p \<Rightarrow> (Panic p, t1 @ t2 @ t3)
      | Return insideTempC \<Rightarrow>
     (let output = output(''inside_f'' \<mapsto>
            VFloat64 (f64_add (f64_div (f64_mul insideTempC (Fin 9)) (Fin 5)) (Fin 32)))
      in (Return (Some output, None), t1 @ t2 @ t3))))))))))))"

text \<open>
  \<^verbatim>\<open>Reconfigure(ctx, deps, conf)\<close>: the error it returns, or the panic that ends it,
  and the adapter afterwards. \<^verbatim>\<open>resource.NativeConfig\<close> and
  \<^verbatim>\<open>sensor.FromDependencies\<close> belong to the host framework; each returns a pair of a
  value that may be nil and an error.
\<close>

record ('c, 'd) rdk =
  resource_NativeConfig :: "'c \<Rightarrow> Config option \<times> error option"
  sensor_FromDependencies :: "'d \<Rightarrow> string \<Rightarrow> sensor option \<times> error option"

definition Reconfigure ::
  "('c, 'd) rdk \<Rightarrow> weathersensorWeathersensor \<Rightarrow> context_Context \<Rightarrow> 'd \<Rightarrow> 'c \<Rightarrow>
     error option outcome \<times> weathersensorWeathersensor" where
  "Reconfigure k s ctx deps conf =
     (case resource_NativeConfig k conf of
        (_, Some err) \<Rightarrow> (Return (Some err), s)
      | (None, None) \<Rightarrow> (Panic NilDereference, s)
      | (Some sensorConfig, None) \<Rightarrow>
          (let (ts, err) = sensor_FromDependencies k deps (TemperatureSensor sensorConfig);
               s = s\<lparr>temperatureSensor := ts\<rparr>
           in case err of
                Some e \<Rightarrow>
                  (Return (Some (Wrapf e ''unable to get temperature sensor %v for weather sensor''
                                   [AString (TemperatureSensor sensorConfig)])), s)
              | None \<Rightarrow>
                  (Return None,
                   s\<lparr>apiKey := APIKey sensorConfig, zipcode := Zipcode sensorConfig\<rparr>)))"

section \<open>The assembled mapping\<close>

text \<open>
  \<open>field v k\<close> is the value under key \<open>k\<close> of the object \<open>v\<close>, and nil when \<open>v\<close> is
  no object or has no such key. \<open>composite cur astro c\<close> is the mapping \<open>Readings\<close>
  assembles from the object \<open>current\<close>, the object \<open>astronomy.astro\<close> and the Celsius
  reading \<open>c\<close>.
\<close>

definition field :: "any \<Rightarrow> string \<Rightarrow> any" where
  "field v k = (case v of VMap m \<Rightarrow> index (Some m) k | _ \<Rightarrow> VNil)"

definition composite :: "any \<Rightarrow> any \<Rightarrow> float64 \<Rightarrow> string \<rightharpoonup> any" where
  "composite cur astro c =
     [''outside_f'' \<mapsto> field cur ''temp_f'',
      ''condition'' \<mapsto> field (field cur ''condition'') ''text'',
      ''code'' \<mapsto> field (field cur ''condition'') ''code'',
      ''cloud_cover_pct'' \<mapsto> field cur ''cloud'',
      ''precipitation_inches'' \<mapsto> field cur ''precip_in'',
      ''is_day'' \<mapsto> field astro ''is_sun_up'',
      ''inside_f'' \<mapsto> VFloat64 (f64_add (f64_div (f64_mul c (Fin 9)) (Fin 5)) (Fin 32))]"

text \<open>
  \<open>asserted_shape r1 r2\<close> says that the decoded current-conditions response \<open>r1\<close> and
  astronomy response \<open>r2\<close> pass the five type assertions \<open>Readings\<close> makes on them.
\<close>

definition asserted_shape :: "gomap \<Rightarrow> gomap \<Rightarrow> bool" where
  "asserted_shape r1 r2 =
     (is_VMap (index r1 ''current'') \<and>
      is_VMap (field (index r1 ''current'') ''condition'') \<and>
      is_VFloat64 (field (index r1 ''current'') ''cloud'') \<and>
      is_VMap (index r2 ''astronomy'') \<and>
      is_VMap (field (index r2 ''astronomy'') ''astro''))"

section \<open>Sample surroundings\<close>

text \<open>
  A world in which the weather API answers the two URLs of \<open>mock_adapter\<close> with the
  given results and every sensor answers with the given reading, and the bodies the
  weather API documents.
\<close>

definition mock_world ::
  "error + response \<Rightarrow> error + response \<Rightarrow> gomap \<times> error option \<Rightarrow> world" where
  "mock_world cur ast rd =
     \<lparr>http_NewRequest = (\<lambda>url. None),
      client_Do = (\<lambda>url.
        if url = ''https://api.weatherapi.com/v1/current.json?q=10001&key=k'' then cur
        else if url = ''https://api.weatherapi.com/v1/astronomy.json?q=10001&dt=2024-05-01&key=k''
        then ast
        else Inl (Foreign ''no such host'')),
      time_Now = ''2024-05-01'',
      sensor_Readings = (\<lambda>ts ctx x. rd)\<rparr>"

definition mock_adapter :: weathersensorWeathersensor where
  "mock_adapter =
     \<lparr>name = ''weather'', cfg = None, temperatureSensor = Some (Sensor ''thermo''),
      apiKey = ''k'', zipcode = 10001\<rparr>"

definition reply :: "int \<Rightarrow> any \<Rightarrow> error + response" where
  "reply status v = Inr \<lparr>StatusCode = status, Body = Inr (JSON v)\<rparr>"

definition current_doc :: any where
  "current_doc =
     VMap [''current'' \<mapsto> VMap
       [''temp_f'' \<mapsto> VFloat64 (Fin 70),
        ''condition'' \<mapsto>
          VMap [''text'' \<mapsto> VString ''Sunny'', ''code'' \<mapsto> VFloat64 (Fin 1000)],
        ''cloud'' \<mapsto> VFloat64 (Fin 25),
        ''precip_in'' \<mapsto> VFloat64 (Fin 0)]]"

definition astronomy_doc :: any where
  "astronomy_doc =
     VMap [''astronomy'' \<mapsto> VMap [''astro'' \<mapsto> VMap [''is_sun_up'' \<mapsto> VFloat64 (Fin 1)]]]"

definition celsius :: "rat \<Rightarrow> gomap \<times> error option" where
  "celsius c = (Some [''degrees_celsius'' \<mapsto> VFloat64 (Fin c)], None)"

definition mock_output :: "any \<Rightarrow> rat \<Rightarrow> string \<rightharpoonup> any" where
  "mock_output t f =
     [''outside_f'' \<mapsto> t, ''condition'' \<mapsto> VString ''Sunny'',
      ''code'' \<mapsto> VFloat64 (Fin 1000), ''cloud_cover_pct'' \<mapsto> VFloat64 (Fin 25),
      ''precipitation_inches'' \<mapsto> VFloat64 (Fin 0), ''is_day'' \<mapsto> VFloat64 (Fin 1),
      ''inside_f'' \<mapsto> VFloat64 (Fin f)]"

definition mock_trace :: "event list" where
  "mock_trace =
    [HTTPGet ''https://api.weatherapi.com/v1/current.json?q=10001&key=k'',
     HTTPGet ''https://api.weatherapi.com/v1/astronomy.json?q=10001&dt=2024-05-01&key=k'',
     SensorReadings (Sensor ''thermo'') (Context ''c'') None]"

definition no_temp_doc :: any where
  "no_temp_doc =
     VMap [''current'' \<mapsto> VMap
       [''condition'' \<mapsto>
          VMap [''text'' \<mapsto> VString ''Sunny'', ''code'' \<mapsto> VFloat64 (Fin 1000)],
        ''cloud'' \<mapsto> VFloat64 (Fin 25),
        ''precip_in'' \<mapsto> VFloat64 (Fin 0)]]"

definition error_doc :: any where
  "error_doc =
     VMap [''code'' \<mapsto> VFloat64 (Fin 1006),
           ''message'' \<mapsto> VString ''No matching location found.'']"

definition mock_rdk ::
  "(Config option \<times> error option, (string \<times> sensor) list) rdk" where
  "mock_rdk =
     \<lparr>resource_NativeConfig = (\<lambda>conf. conf),
      sensor_FromDependencies = (\<lambda>deps n.
        case map_of deps n of
          None \<Rightarrow> (None, Some (Foreign ''dependency not found''))
        | Some x \<Rightarrow> (Some x, None))\<rparr>"

definition mock_config :: Config where
  "mock_config = \<lparr>TemperatureSensor = ''thermo'', Zipcode = 94107, APIKey = ''k2''\<rparr>"

section \<open>Evaluation\<close>

declare decimal.simps [simp del] bits.simps [simp del]

lemmas f64_defs =
  f64_mul_def f64_div_def f64_add_def f64_is_inf_def f64_is_zero_def f64_round_def
  ilog2_def pow2_def round_half_even_def signed_zero_def signed_inf_def Let_def bits.simps

lemma fahrenheit_of_0:
  "f64_add (f64_div (f64_mul (Fin 0) (Fin 9)) (Fin 5)) (Fin 32) = Fin 32"
  by (simp add: f64_defs)

lemma fahrenheit_of_100:
  "f64_add (f64_div (f64_mul (Fin 100) (Fin 9)) (Fin 5)) (Fin 32) = Fin 212"
  by (simp add: f64_defs)

lemma mock_world_sel:
  "http_NewRequest (mock_world a b c) url = None"
  "client_Do (mock_world a b c) url =
     (if url = ''https://api.weatherapi.com/v1/current.json?q=10001&key=k'' then a
      else if url = ''https://api.weatherapi.com/v1/astronomy.json?q=10001&dt=2024-05-01&key=k''
      then b
      else Inl (Foreign ''no such host''))"
  "time_Now (mock_world a b c) = ''2024-05-01''"
  "sensor_Readings (mock_world a b c) ts ctx x = c"
  by (simp_all add: mock_world_def)

lemma itoa_10001: "itoa 10001 = ''10001''"
  by (simp add: itoa_def decimal.simps)

lemma mock_urls:
  "getCurrentWeatherURL mock_adapter =
     ''https://api.weatherapi.com/v1/current.json?q=10001&key=k''"
  "getCurrentAstronomyURL (mock_world a b c) mock_adapter =
     ''https://api.weatherapi.com/v1/astronomy.json?q=10001&dt=2024-05-01&key=k''"
  by (simp_all add: getCurrentWeatherURL_def getCurrentAstronomyURL_def mock_adapter_def
        mock_world_sel itoa_10001 currentWeatherURL_def astronomyURL_def)

lemma mock_sensor: "temperatureSensor mock_adapter = Some (Sensor ''thermo'')"
  by (simp add: mock_adapter_def)

lemmas mock_simps =
  Readings_def getCurrentWeather_def getCurrentAstronomy_def getWeatherBodyOrCode_def
  mock_urls mock_world_sel mock_sensor reply_def celsius_def index_def lookup_def
  current_doc_def astronomy_doc_def

lemma run_100:
  "Readings (mock_world (reply 200 current_doc) (reply 200 astronomy_doc) (celsius 100))
     mock_adapter (Context ''c'') extra =
   (Return (Some (mock_output (VFloat64 (Fin 70)) 212), None), mock_trace)"
  by (simp add: mock_simps mock_output_def mock_trace_def fahrenheit_of_100)

lemma run_0:
  "Readings (mock_world (reply 200 current_doc) (reply 200 astronomy_doc) (celsius 0))
     mock_adapter (Context ''c'') extra =
   (Return (Some (mock_output (VFloat64 (Fin 70)) 32), None), mock_trace)"
  by (simp add: mock_simps mock_output_def mock_trace_def fahrenheit_of_0)

section \<open>Configuration validation\<close>

text \<open>
  C3: \<open>Validate\<close> returns an error exactly when the temp-sensor string is empty, the
  apikey string is empty or the zipcode is zero. The checks run in that order and the
  first one that fails decides the error, which names the missing attribute and no other;
  when all three pass, \<open>Validate\<close> returns the one-element list holding the temp-sensor
  identifier as the required dependencies, and no error.
\<close>

theorem Validate_first_failure:
  \<open>((\<exists>e. snd (snd (Validate c path)) = Some e) \<longleftrightarrow>
      (TemperatureSensor c = '''' \<or> APIKey c = '''' \<or> Zipcode c = 0)) \<and>
   (TemperatureSensor c = '''' \<longrightarrow>
      Validate c path =
        (None, None, Some (Errorf ''expected "temp-sensor" attribute for weather module'' []))) \<and>
   (TemperatureSensor c \<noteq> '''' \<and> APIKey c = '''' \<longrightarrow>
      Validate c path =
        (None, None, Some (Errorf ''expected "apikey" attribute for weather module'' []))) \<and>
   (TemperatureSensor c \<noteq> '''' \<and> APIKey c \<noteq> '''' \<and> Zipcode c = 0 \<longrightarrow>
      Validate c path =
        (None, None, Some (Errorf ''expected "zipcode" attribute for weather module'' []))) \<and>
   (TemperatureSensor c \<noteq> '''' \<and> APIKey c \<noteq> '''' \<and> Zipcode c \<noteq> 0 \<longrightarrow>
      Validate c path = (Some [TemperatureSensor c], None, None))\<close>
  by (simp add: Validate_def)

theorem Validate_first_failure_witness:
  \<open>Validate \<lparr>TemperatureSensor = '''', Zipcode = 0, APIKey = ''''\<rparr> ''components.0'' =
      (None, None, Some (Errorf ''expected "temp-sensor" attribute for weather module'' [])) \<and>
   Validate \<lparr>TemperatureSensor = ''thermo'', Zipcode = 0, APIKey = ''''\<rparr> ''components.0'' =
      (None, None, Some (Errorf ''expected "apikey" attribute for weather module'' [])) \<and>
   Validate \<lparr>TemperatureSensor = ''thermo'', Zipcode = 0, APIKey = ''k''\<rparr> ''components.0'' =
      (None, None, Some (Errorf ''expected "zipcode" attribute for weather module'' [])) \<and>
   Validate \<lparr>TemperatureSensor = ''thermo'', Zipcode = 10001, APIKey = ''k''\<rparr> ''components.0'' =
      (Some [''thermo''], None, None)\<close>
  using
    Validate_first_failure
      [of \<open>\<lparr>TemperatureSensor = '''', Zipcode = 0, APIKey = ''''\<rparr>\<close> \<open>''components.0''\<close>]
    Validate_first_failure
      [of \<open>\<lparr>TemperatureSensor = ''thermo'', Zipcode = 0, APIKey = ''''\<rparr>\<close> \<open>''components.0''\<close>]
    Validate_first_failure
      [of \<open>\<lparr>TemperatureSensor = ''thermo'', Zipcode = 0, APIKey = ''k''\<rparr>\<close> \<open>''components.0''\<close>]
    Validate_first_failure
      [of \<open>\<lparr>TemperatureSensor = ''thermo'', Zipcode = 10001, APIKey = ''k''\<rparr>\<close> \<open>''components.0''\<close>]
  by simp

section \<open>The steps of a reading\<close>

lemma assert_map_conv:
  "assert_map v =
     (if is_VMap v then Return (un_VMap v) else Panic (TypeAssertion ''map[string]interface {}''))"
  by (cases v) simp_all

lemma assert_float64_conv:
  "assert_float64 v =
     (if is_VFloat64 v then Return (un_VFloat64 v) else Panic (TypeAssertion ''float64''))"
  by (cases v) simp_all

lemma index_un_VMap: "is_VMap v \<Longrightarrow> index (Some (un_VMap v)) k = field v k"
  by (cases v) (simp_all add: field_def)

lemma VFloat64_un: "is_VFloat64 v \<Longrightarrow> VFloat64 (un_VFloat64 v) = v"
  by (cases v) simp_all

lemma index_lookup: "index m k = v \<Longrightarrow> v \<noteq> VNil \<Longrightarrow> lookup m k = Some v"
  by (auto simp: index_def split: option.splits)

lemma dom_composite:
  "dom (composite cur astro c) =
     {''outside_f'', ''condition'', ''code'', ''cloud_cover_pct'', ''precipitation_inches'',
      ''is_day'', ''inside_f''}"
  by (auto simp: composite_def)

lemma getWeatherBodyOrCode_trace:
  "snd (getWeatherBodyOrCode w url) =
     (case http_NewRequest w url of None \<Rightarrow> [HTTPGet url] | Some e \<Rightarrow> [])"
  by (simp add: getWeatherBodyOrCode_def split: option.splits sum.splits prod.splits)

lemma fetch_traces:
  "snd (getCurrentWeather w s) = [] \<or>
   snd (getCurrentWeather w s) = [HTTPGet (getCurrentWeatherURL s)]"
  "snd (getCurrentAstronomy w s) = [] \<or>
   snd (getCurrentAstronomy w s) = [HTTPGet (getCurrentAstronomyURL w s)]"
  by (simp_all add: getCurrentWeather_def getCurrentAstronomy_def getWeatherBodyOrCode_trace
        split: option.splits)

lemma getWeatherBodyOrCode_ok_trace:
  "snd (fst (getWeatherBodyOrCode w url)) = None \<Longrightarrow>
   snd (getWeatherBodyOrCode w url) = [HTTPGet url]"
  by (auto simp: getWeatherBodyOrCode_def split: option.splits sum.splits prod.splits if_splits)

lemma fetch_ok_traces:
  "getCurrentWeather w s = ((r1, None), t1) \<Longrightarrow> t1 = [HTTPGet (getCurrentWeatherURL s)]"
  "getCurrentAstronomy w s = ((r2, None), t2) \<Longrightarrow> t2 = [HTTPGet (getCurrentAstronomyURL w s)]"
  using getWeatherBodyOrCode_ok_trace [of w "getCurrentWeatherURL s"]
        getWeatherBodyOrCode_ok_trace [of w "getCurrentAstronomyURL w s"]
  by (simp_all add: getCurrentWeather_def getCurrentAstronomy_def)


lemma Readings_current_fails:
  assumes "getCurrentWeather w s = ((r1, Some e), t1)"
  shows "Readings w s ctx extra = (Return (None, Some e), t1)"
  by (simp add: Readings_def assms)

lemma Readings_astronomy_fails:
  assumes "getCurrentWeather w s = ((r1, None), t1)"
    and "getCurrentAstronomy w s = ((r2, Some e), t2)"
  shows "Readings w s ctx extra = (Return (None, Some e), t1 @ t2)"
  by (simp add: Readings_def assms)

lemma Readings_fetched:
  assumes "getCurrentWeather w s = ((r1, None), t1)"
    and "getCurrentAstronomy w s = ((r2, None), t2)"
  shows "Readings w s ctx extra =
    (let cur = index r1 ''current''; astro = field (index r2 ''astronomy'') ''astro''
     in if \<not> is_VMap cur \<or> \<not> is_VMap (field cur ''condition'')
        then (Panic (TypeAssertion ''map[string]interface {}''), t1 @ t2)
        else if \<not> is_VFloat64 (field cur ''cloud'')
        then (Panic (TypeAssertion ''float64''), t1 @ t2)
        else if \<not> is_VMap (index r2 ''astronomy'') \<or> \<not> is_VMap astro
        then (Panic (TypeAssertion ''map[string]interface {}''), t1 @ t2)
        else case temperatureSensor s of
          None \<Rightarrow> (Panic NilDereference, t1 @ t2)
        | Some ts \<Rightarrow>
            (case sensor_Readings w ts ctx None of
               (rd, Some e) \<Rightarrow>
                 (Return (None, Some (Wrapf e ''error getting reading from temp sensor'' [])),
                  t1 @ t2 @ [SensorReadings ts ctx None])
             | (rd, None) \<Rightarrow>
                 if \<not> is_VFloat64 (index rd ''degrees_celsius'')
                 then (Panic (TypeAssertion ''float64''), t1 @ t2 @ [SensorReadings ts ctx None])
                 else (Return (Some (composite cur astro
                                 (un_VFloat64 (index rd ''degrees_celsius''))), None),
                       t1 @ t2 @ [SensorReadings ts ctx None])))"
  by (simp add: Readings_def assms Let_def assert_map_conv assert_float64_conv index_un_VMap
        VFloat64_un composite_def split: option.splits prod.splits)


section \<open>The composite reading\<close>

text \<open>
  C1: whenever \<open>Readings\<close> returns without an error, both weather fetches and the reading
  of the dependency sensor have succeeded, the mapping it returns is not nil and its
  keys are exactly \<open>outside_f\<close>, \<open>condition\<close>, \<open>code\<close>, \<open>cloud_cover_pct\<close>,
  \<open>precipitation_inches\<close>, \<open>is_day\<close> and \<open>inside_f\<close>. Conversely, when the two fetches
  and the reading of the dependency sensor succeed, a call that returns at all returns
  such a mapping and no error.
\<close>

theorem Readings_seven_keys:
  "(\<forall>m. fst (Readings w s ctx extra) = Return (m, None) \<longrightarrow>
      (\<exists>output. m = Some output \<and>
         dom output = {''outside_f'', ''condition'', ''code'', ''cloud_cover_pct'',
                       ''precipitation_inches'', ''is_day'', ''inside_f''}) \<and>
      snd (fst (getCurrentWeather w s)) = None \<and>
      snd (fst (getCurrentAstronomy w s)) = None \<and>
      (\<exists>ts rd. temperatureSensor s = Some ts \<and>
         sensor_Readings w ts ctx None = (rd, None))) \<and>
   (\<forall>ts rd r. snd (fst (getCurrentWeather w s)) = None \<and>
        snd (fst (getCurrentAstronomy w s)) = None \<and>
        temperatureSensor s = Some ts \<and>
        sensor_Readings w ts ctx None = (rd, None) \<and>
        fst (Readings w s ctx extra) = Return r \<longrightarrow>
      (\<exists>output. r = (Some output, None) \<and>
         dom output = {''outside_f'', ''condition'', ''code'', ''cloud_cover_pct'',
                       ''precipitation_inches'', ''is_day'', ''inside_f''}))"
proof -
  obtain r1 e1 t1 where cw: "getCurrentWeather w s = ((r1, e1), t1)"
    by (metis surj_pair)
  obtain r2 e2 t2 where ca: "getCurrentAstronomy w s = ((r2, e2), t2)"
    by (metis surj_pair)
  show ?thesis
  proof (cases e1)
    case (Some e)
    with cw show ?thesis by (simp add: Readings_current_fails)
  next
    case None
    note e1 = this
    show ?thesis
    proof (cases e2)
      case (Some e)
      with cw ca e1 show ?thesis by (simp add: Readings_astronomy_fails)
    next
      case None
      from cw ca e1 None show ?thesis
        unfolding Readings_fetched [OF cw [unfolded e1] ca [unfolded None]]
        by (auto simp: Let_def dom_composite split: if_splits option.splits prod.splits)
    qed
  qed
qed

theorem Readings_seven_keys_witness:
  "fst (Readings (mock_world (reply 200 current_doc) (reply 200 astronomy_doc) (celsius 100))
          mock_adapter (Context ''c'') None) =
     Return (Some (mock_output (VFloat64 (Fin 70)) 212), None) \<and>
   dom (mock_output (VFloat64 (Fin 70)) 212) =
     {''outside_f'', ''condition'', ''code'', ''cloud_cover_pct'', ''precipitation_inches'',
      ''is_day'', ''inside_f''} \<and>
   snd (fst (getCurrentWeather
     (mock_world (reply 200 current_doc) (reply 200 astronomy_doc) (celsius 100))
     mock_adapter)) = None \<and>
   snd (fst (getCurrentAstronomy
     (mock_world (reply 200 current_doc) (reply 200 astronomy_doc) (celsius 100))
     mock_adapter)) = None"
proof -
  have h: "fst (Readings (mock_world (reply 200 current_doc) (reply 200 astronomy_doc)
                  (celsius 100)) mock_adapter (Context ''c'') None) =
           Return (Some (mock_output (VFloat64 (Fin 70)) 212), None)"
    by (simp add: run_100)
  from Readings_seven_keys
         [of "mock_world (reply 200 current_doc) (reply 200 astronomy_doc) (celsius 100)"
             mock_adapter "Context ''c''" None] h
  show ?thesis by simp
qed

text \<open>
  C2: whenever \<open>Readings\<close> returns without an error, it returns a mapping, the
  dependency sensor was read with the context of the call, its reading holds a float64
  \<open>c\<close> under \<open>degrees_celsius\<close>, and \<open>inside_f\<close> is the float64 value of
  \<open>c * 9 / 5 + 32\<close>, each operation rounded as Go rounds it; for \<open>c = 0\<close> that is \<open>32\<close>
  and for \<open>c = 100\<close> it is \<open>212\<close>. And whenever both fetches succeed with responses that
  pass the type assertions and the dependency sensor's reading holds a float64 \<open>c\<close>
  under \<open>degrees_celsius\<close>, \<open>Readings\<close> does return, without an error, a mapping whose
  \<open>inside_f\<close> is that value.
\<close>

theorem Readings_inside_f:
  "(\<forall>m. fst (Readings w s ctx extra) = Return (m, None) \<longrightarrow>
      (\<exists>output ts readings c.
         m = Some output \<and>
         temperatureSensor s = Some ts \<and>
         sensor_Readings w ts ctx None = (readings, None) \<and>
         lookup readings ''degrees_celsius'' = Some (VFloat64 c) \<and>
         output ''inside_f'' =
           Some (VFloat64 (f64_add (f64_div (f64_mul c (Fin 9)) (Fin 5)) (Fin 32))) \<and>
         (c = Fin 0 \<longrightarrow> output ''inside_f'' = Some (VFloat64 (Fin 32))) \<and>
         (c = Fin 100 \<longrightarrow> output ''inside_f'' = Some (VFloat64 (Fin 212))))) \<and>
   (\<forall>r1 t1 r2 t2 ts readings c.
      getCurrentWeather w s = ((r1, None), t1) \<and>
      getCurrentAstronomy w s = ((r2, None), t2) \<and>
      asserted_shape r1 r2 \<and>
      temperatureSensor s = Some ts \<and>
      sensor_Readings w ts ctx None = (readings, None) \<and>
      lookup readings ''degrees_celsius'' = Some (VFloat64 c) \<longrightarrow>
      (\<exists>output.
         fst (Readings w s ctx extra) = Return (Some output, None) \<and>
         output ''inside_f'' =
           Some (VFloat64 (f64_add (f64_div (f64_mul c (Fin 9)) (Fin 5)) (Fin 32))) \<and>
         (c = Fin 0 \<longrightarrow> output ''inside_f'' = Some (VFloat64 (Fin 32))) \<and>
         (c = Fin 100 \<longrightarrow> output ''inside_f'' = Some (VFloat64 (Fin 212)))))"
proof -
  obtain r1 e1 t1 where cw: "getCurrentWeather w s = ((r1, e1), t1)"
    by (metis surj_pair)
  obtain r2 e2 t2 where ca: "getCurrentAstronomy w s = ((r2, e2), t2)"
    by (metis surj_pair)
  show ?thesis
  proof (cases e1)
    case (Some e)
    with cw show ?thesis by (simp add: Readings_current_fails)
  next
    case None
    note e1 = this
    show ?thesis
    proof (cases e2)
      case (Some e)
      with cw ca e1 show ?thesis by (simp add: Readings_astronomy_fails)
    next
      case None
      note fetched = Readings_fetched [OF cw [unfolded e1] ca [unfolded None], of ctx extra]
      have returned: "\<exists>output ts readings c.
          m = Some output \<and>
          temperatureSensor s = Some ts \<and>
          sensor_Readings w ts ctx None = (readings, None) \<and>
          lookup readings ''degrees_celsius'' = Some (VFloat64 c) \<and>
          output ''inside_f'' =
            Some (VFloat64 (f64_add (f64_div (f64_mul c (Fin 9)) (Fin 5)) (Fin 32))) \<and>
          (c = Fin 0 \<longrightarrow> output ''inside_f'' = Some (VFloat64 (Fin 32))) \<and>
          (c = Fin 100 \<longrightarrow> output ''inside_f'' = Some (VFloat64 (Fin 212)))"
        if ret: "fst (Readings w s ctx extra) = Return (m, None)" for m
      proof -
        from ret fetched obtain ts rd
          where ts: "temperatureSensor s = Some ts"
            and rd: "sensor_Readings w ts ctx None = (rd, None)"
            and fl: "is_VFloat64 (index rd ''degrees_celsius'')"
            and out: "m = Some (composite (index r1 ''current'')
                        (field (index r2 ''astronomy'') ''astro'')
                        (un_VFloat64 (index rd ''degrees_celsius'')))"
          by (auto simp: Let_def split: if_splits option.splits prod.splits)
        define c where "c = un_VFloat64 (index rd ''degrees_celsius'')"
        from fl have ix: "index rd ''degrees_celsius'' = VFloat64 c"
          by (simp add: c_def VFloat64_un)
        then have lk: "lookup rd ''degrees_celsius'' = Some (VFloat64 c)"
          by (rule index_lookup) simp
        from ts rd lk out show ?thesis
          by (auto simp: c_def composite_def fahrenheit_of_0 fahrenheit_of_100)
      qed
      have sources: "\<exists>output.
          fst (Readings w s ctx extra) = Return (Some output, None) \<and>
          output ''inside_f'' =
            Some (VFloat64 (f64_add (f64_div (f64_mul c (Fin 9)) (Fin 5)) (Fin 32))) \<and>
          (c = Fin 0 \<longrightarrow> output ''inside_f'' = Some (VFloat64 (Fin 32))) \<and>
          (c = Fin 100 \<longrightarrow> output ''inside_f'' = Some (VFloat64 (Fin 212)))"
        if shape: "asserted_shape r1 r2"
          and ts: "temperatureSensor s = Some ts"
          and rd: "sensor_Readings w ts ctx None = (readings, None)"
          and lk: "lookup readings ''degrees_celsius'' = Some (VFloat64 c)"
        for ts readings c
      proof -
        from lk have ix: "index readings ''degrees_celsius'' = VFloat64 c"
          by (simp add: index_def)
        from shape ts rd ix show ?thesis
          unfolding fetched
          by (simp add: asserted_shape_def Let_def composite_def fahrenheit_of_0
                fahrenheit_of_100)
      qed
      from returned sources cw ca e1 None show ?thesis
        by simp
    qed
  qed
qed

theorem Readings_inside_f_witness:
  "fst (Readings (mock_world (reply 200 current_doc) (reply 200 astronomy_doc) (celsius 0))
          mock_adapter (Context ''c'') None) =
     Return (Some (mock_output (VFloat64 (Fin 70)) 32), None) \<and>
   mock_output (VFloat64 (Fin 70)) 32 ''inside_f'' = Some (VFloat64 (Fin 32)) \<and>
   fst (Readings (mock_world (reply 200 current_doc) (reply 200 astronomy_doc) (celsius 100))
          mock_adapter (Context ''c'') None) =
     Return (Some (mock_output (VFloat64 (Fin 70)) 212), None) \<and>
   mock_output (VFloat64 (Fin 70)) 212 ''inside_f'' = Some (VFloat64 (Fin 212)) \<and>
   asserted_shape (Some (un_VMap current_doc)) (Some (un_VMap astronomy_doc)) \<and>
   (\<exists>output.
      fst (Readings (mock_world (reply 200 current_doc) (reply 200 astronomy_doc) (celsius 100))
             mock_adapter (Context ''c'') (Some Map.empty)) = Return (Some output, None) \<and>
      output ''inside_f'' = Some (VFloat64 (Fin 212)))"
proof -
  let ?cur = "''https://api.weatherapi.com/v1/current.json?q=10001&key=k''"
  let ?ast = "''https://api.weatherapi.com/v1/astronomy.json?q=10001&dt=2024-05-01&key=k''"
  let ?w0 = "mock_world (reply 200 current_doc) (reply 200 astronomy_doc) (celsius 0)"
  let ?w100 = "mock_world (reply 200 current_doc) (reply 200 astronomy_doc) (celsius 100)"
  have h0: "fst (Readings ?w0 mock_adapter (Context ''c'') None) =
            Return (Some (mock_output (VFloat64 (Fin 70)) 32), None)"
    by (simp add: run_0)
  have h100: "fst (Readings ?w100 mock_adapter (Context ''c'') None) =
              Return (Some (mock_output (VFloat64 (Fin 70)) 212), None)"
    by (simp add: run_100)
  have cw: "getCurrentWeather ?w100 mock_adapter =
      ((Some (un_VMap current_doc), None), [HTTPGet ?cur])"
    by (simp add: mock_simps)
  have ca: "getCurrentAstronomy ?w100 mock_adapter =
      ((Some (un_VMap astronomy_doc), None), [HTTPGet ?ast])"
    by (simp add: mock_simps)
  have shape: "asserted_shape (Some (un_VMap current_doc)) (Some (un_VMap astronomy_doc))"
    by (simp add: asserted_shape_def field_def index_def lookup_def current_doc_def
          astronomy_doc_def)
  have rd: "sensor_Readings ?w100 (Sensor ''thermo'') (Context ''c'') None =
      (Some [''degrees_celsius'' \<mapsto> VFloat64 (Fin 100)], None)"
    by (simp add: mock_world_sel celsius_def)
  have lk: "lookup (Some [''degrees_celsius'' \<mapsto> VFloat64 (Fin 100)]) ''degrees_celsius'' =
      Some (VFloat64 (Fin 100))"
    by (simp add: lookup_def)
  have first: "mock_output (VFloat64 (Fin 70)) 32 ''inside_f'' = Some (VFloat64 (Fin 32)) \<and>
      mock_output (VFloat64 (Fin 70)) 212 ''inside_f'' = Some (VFloat64 (Fin 212))"
    using Readings_inside_f [of ?w0 mock_adapter "Context ''c''" None]
          Readings_inside_f [of ?w100 mock_adapter "Context ''c''" None] h0 h100
    by (auto simp: mock_world_sel celsius_def lookup_def)
  have second: "\<exists>output.
      fst (Readings ?w100 mock_adapter (Context ''c'') (Some Map.empty)) =
        Return (Some output, None) \<and>
      output ''inside_f'' = Some (VFloat64 (Fin 212))"
    using Readings_inside_f [of ?w100 mock_adapter "Context ''c''" "Some Map.empty"]
          cw ca shape mock_sensor rd lk
    by blast
  from h0 h100 first second shape show ?thesis
    by blast
qed

text \<open>
  C10: \<open>Readings\<close> does not read its \<open>extra\<close> argument. Two calls that differ only in
  \<open>extra\<close> return the same mapping and error and make the same calls, and every call
  to the dependency sensor passes a nil \<open>extra\<close> map.
\<close>

theorem Readings_ignores_extra:
  "Readings w s ctx extra = Readings w s ctx extra' \<and>
   (\<forall>ev \<in> set (snd (Readings w s ctx extra)).
      is_SensorReadings ev \<longrightarrow> extra_arg ev = None)"
proof
  show "Readings w s ctx extra = Readings w s ctx extra'"
    by (simp add: Readings_def)
  obtain r1 e1 t1 where cw: "getCurrentWeather w s = ((r1, e1), t1)"
    by (metis surj_pair)
  obtain r2 e2 t2 where ca: "getCurrentAstronomy w s = ((r2, e2), t2)"
    by (metis surj_pair)
  from fetch_traces(1) [of w s] cw have t1: "\<forall>ev \<in> set t1. \<not> is_SensorReadings ev"
    by auto
  from fetch_traces(2) [of w s] ca have t2: "\<forall>ev \<in> set t2. \<not> is_SensorReadings ev"
    by auto
  show "\<forall>ev \<in> set (snd (Readings w s ctx extra)).
          is_SensorReadings ev \<longrightarrow> extra_arg ev = None"
  proof (cases e1)
    case (Some e)
    with cw t1 show ?thesis by (simp add: Readings_current_fails)
  next
    case None
    note e1 = this
    show ?thesis
    proof (cases e2)
      case (Some e)
      with cw ca e1 t1 t2 show ?thesis by (auto simp: Readings_astronomy_fails)
    next
      case None
      from t1 t2 show ?thesis
        unfolding Readings_fetched [OF cw [unfolded e1] ca [unfolded None]]
        by (auto simp: Let_def split: option.splits prod.splits)
    qed
  qed
qed

theorem Readings_ignores_extra_witness:
  "Readings (mock_world (reply 200 current_doc) (reply 200 astronomy_doc) (celsius 100))
     mock_adapter (Context ''c'') (Some [''unit'' \<mapsto> VString ''K'']) =
   Readings (mock_world (reply 200 current_doc) (reply 200 astronomy_doc) (celsius 100))
     mock_adapter (Context ''c'') None \<and>
   SensorReadings (Sensor ''thermo'') (Context ''c'') None \<in>
     set (snd (Readings (mock_world (reply 200 current_doc) (reply 200 astronomy_doc)
       (celsius 100)) mock_adapter (Context ''c'') (Some [''unit'' \<mapsto> VString ''K''])))"
  using Readings_ignores_extra
    [of "mock_world (reply 200 current_doc) (reply 200 astronomy_doc) (celsius 100)"
        mock_adapter "Context ''c''" "Some [''unit'' \<mapsto> VString ''K'']" None]
  by (simp add: run_100 mock_trace_def)

section \<open>Order of the calls and failures\<close>



text \<open>
  C8: when both weather fetches succeed and the reading call of the adapter's dependency
  sensor returns an error, every call of \<open>Readings\<close> that returns returns a nil
  mapping and that error wrapped with the message
  \<open>error getting reading from temp sensor\<close>. When moreover the two responses pass the
  type assertions, \<open>Readings\<close> does return so, after the two fetches and one call of the
  sensor with the context of the call and a nil \<open>extra\<close>.
\<close>

theorem Readings_wraps_sensor_error:
  "(\<forall>ts rd e r.
      snd (fst (getCurrentWeather w s)) = None \<and>
      snd (fst (getCurrentAstronomy w s)) = None \<and>
      temperatureSensor s = Some ts \<and>
      sensor_Readings w ts ctx None = (rd, Some e) \<and>
      fst (Readings w s ctx extra) = Return r \<longrightarrow>
      r = (None, Some (Wrapf e ''error getting reading from temp sensor'' []))) \<and>
   (\<forall>r1 t1 r2 t2 ts rd e.
      getCurrentWeather w s = ((r1, None), t1) \<and>
      getCurrentAstronomy w s = ((r2, None), t2) \<and>
      asserted_shape r1 r2 \<and>
      temperatureSensor s = Some ts \<and>
      sensor_Readings w ts ctx None = (rd, Some e) \<longrightarrow>
      Readings w s ctx extra =
        (Return (None, Some (Wrapf e ''error getting reading from temp sensor'' [])),
         [HTTPGet (getCurrentWeatherURL s), HTTPGet (getCurrentAstronomyURL w s),
          SensorReadings ts ctx None]))"
proof -
  obtain r1 e1 t1 where cw: "getCurrentWeather w s = ((r1, e1), t1)"
    by (metis surj_pair)
  obtain r2 e2 t2 where ca: "getCurrentAstronomy w s = ((r2, e2), t2)"
    by (metis surj_pair)
  show ?thesis
  proof (cases e1)
    case (Some e)
    with cw show ?thesis by simp
  next
    case None
    note e1 = this
    show ?thesis
    proof (cases e2)
      case (Some e)
      with ca show ?thesis by simp
    next
      case None
      note fetched = Readings_fetched [OF cw [unfolded e1] ca [unfolded None], of ctx extra]
      note t1 = fetch_ok_traces(1) [OF cw [unfolded e1]]
      note t2 = fetch_ok_traces(2) [OF ca [unfolded None]]
      have returned: "r = (None, Some (Wrapf e ''error getting reading from temp sensor'' []))"
        if "temperatureSensor s = Some ts"
          and "sensor_Readings w ts ctx None = (rd, Some e)"
          and "fst (Readings w s ctx extra) = Return r"
        for ts rd e r
        using that unfolding fetched
        by (auto simp: Let_def split: if_splits)
      have sources: "Readings w s ctx extra =
          (Return (None, Some (Wrapf e ''error getting reading from temp sensor'' [])),
           [HTTPGet (getCurrentWeatherURL s), HTTPGet (getCurrentAstronomyURL w s),
            SensorReadings ts ctx None])"
        if "asserted_shape r1 r2"
          and "temperatureSensor s = Some ts"
          and "sensor_Readings w ts ctx None = (rd, Some e)"
        for ts rd e
        using that t1 t2 unfolding fetched
        by (simp add: asserted_shape_def Let_def)
      show ?thesis
      proof (intro conjI allI impI)
        fix ts rd e r
        assume "snd (fst (getCurrentWeather w s)) = None \<and>
          snd (fst (getCurrentAstronomy w s)) = None \<and>
          temperatureSensor s = Some ts \<and>
          sensor_Readings w ts ctx None = (rd, Some e) \<and>
          fst (Readings w s ctx extra) = Return r"
        then show "r = (None, Some (Wrapf e ''error getting reading from temp sensor'' []))"
          using returned by blast
      next
        fix r1' t1' r2' t2' ts rd e
        assume a: "getCurrentWeather w s = ((r1', None), t1') \<and>
          getCurrentAstronomy w s = ((r2', None), t2') \<and>
          asserted_shape r1' r2' \<and>
          temperatureSensor s = Some ts \<and>
          sensor_Readings w ts ctx None = (rd, Some e)"
        with cw ca have "r1' = r1" and "r2' = r2"
          by simp_all
        with a show "Readings w s ctx extra =
          (Return (None, Some (Wrapf e ''error getting reading from temp sensor'' [])),
           [HTTPGet (getCurrentWeatherURL s), HTTPGet (getCurrentAstronomyURL w s),
            SensorReadings ts ctx None])"
          using sources by blast
      qed
    qed
  qed
qed

theorem Readings_wraps_sensor_error_witness:
  "snd (fst (getCurrentWeather (mock_world (reply 200 current_doc) (reply 200 astronomy_doc)
     (None, Some (Foreign ''sensor offline''))) mock_adapter)) = None \<and>
   snd (fst (getCurrentAstronomy (mock_world (reply 200 current_doc) (reply 200 astronomy_doc)
     (None, Some (Foreign ''sensor offline''))) mock_adapter)) = None \<and>
   asserted_shape (Some (un_VMap current_doc)) (Some (un_VMap astronomy_doc)) \<and>
   sensor_Readings (mock_world (reply 200 current_doc) (reply 200 astronomy_doc)
     (None, Some (Foreign ''sensor offline''))) (Sensor ''thermo'') (Context ''c'') None =
     (None, Some (Foreign ''sensor offline'')) \<and>
   Readings (mock_world (reply 200 current_doc) (reply 200 astronomy_doc)
       (None, Some (Foreign ''sensor offline''))) mock_adapter (Context ''c'') None =
     (Return (None, Some (Wrapf (Foreign ''sensor offline'')
        ''error getting reading from temp sensor'' [])),
      mock_trace)"
proof -
  let ?cur = "''https://api.weatherapi.com/v1/current.json?q=10001&key=k''"
  let ?ast = "''https://api.weatherapi.com/v1/astronomy.json?q=10001&dt=2024-05-01&key=k''"
  let ?w = "mock_world (reply 200 current_doc) (reply 200 astronomy_doc)
              (None, Some (Foreign ''sensor offline''))"
  have cw: "getCurrentWeather ?w mock_adapter =
      ((Some (un_VMap current_doc), None), [HTTPGet ?cur])"
    by (simp add: mock_simps)
  have ca: "getCurrentAstronomy ?w mock_adapter =
      ((Some (un_VMap astronomy_doc), None), [HTTPGet ?ast])"
    by (simp add: mock_simps)
  have shape: "asserted_shape (Some (un_VMap current_doc)) (Some (un_VMap astronomy_doc))"
    by (simp add: asserted_shape_def field_def index_def lookup_def current_doc_def
          astronomy_doc_def)
  have rd: "sensor_Readings ?w (Sensor ''thermo'') (Context ''c'') None =
      (None, Some (Foreign ''sensor offline''))"
    by (simp add: mock_world_sel)
  have run: "Readings ?w mock_adapter (Context ''c'') None =
      (Return (None, Some (Wrapf (Foreign ''sensor offline'')
         ''error getting reading from temp sensor'' [])),
       [HTTPGet (getCurrentWeatherURL mock_adapter),
        HTTPGet (getCurrentAstronomyURL ?w mock_adapter),
        SensorReadings (Sensor ''thermo'') (Context ''c'') None])"
    by (rule Readings_wraps_sensor_error [THEN conjunct2, rule_format])
       (intro conjI; rule cw ca shape mock_sensor rd)
  from cw ca shape rd run show ?thesis
    by (simp add: mock_urls mock_trace_def)
qed

section \<open>Fetching one endpoint\<close>

text \<open>
  C5: for a response whose status is not 200 and whose body is a JSON object: when the
  object has no \<open>code\<close> key, \<open>getWeatherBodyOrCode\<close> returns a nil map and an error that
  carries the status and says that the code is missing; when it has a \<open>code\<close> but no
  \<open>message\<close> key, a nil map and an error that carries the status and says that the message
  is missing; when it has both, the decoded object together with an error that carries
  the values of \<open>code\<close> and \<open>message\<close>.
\<close>

theorem getWeatherBodyOrCode_status:
  assumes "http_NewRequest w url = None"
    and "client_Do w url = Inr resp"
    and "Body resp = Inr (JSON (VMap m))"
    and "StatusCode resp \<noteq> 200"
  shows "(m ''code'' = None \<longrightarrow>
            fst (getWeatherBodyOrCode w url) =
              (None, Some (Errorf ''request failed with code %d, and no code in response body''
                             [AInt (StatusCode resp)]))) \<and>
         (\<forall>c. m ''code'' = Some c \<and> m ''message'' = None \<longrightarrow>
            fst (getWeatherBodyOrCode w url) =
              (None, Some (Errorf ''request failed with code %d, and no message in response body''
                             [AInt (StatusCode resp)]))) \<and>
         (\<forall>c msg. m ''code'' = Some c \<and> m ''message'' = Some msg \<longrightarrow>
            fst (getWeatherBodyOrCode w url) =
              (Some m, Some (Errorf ''error fetching weather info, code: %d, message: %s''
                               [AAny c, AAny msg])))"
  using assms by (simp add: getWeatherBodyOrCode_def lookup_def)

theorem getWeatherBodyOrCode_status_witness:
  "fst (getWeatherBodyOrCode (mock_world (reply 500 error_doc) (reply 404 (VMap Map.empty))
          (celsius 0)) ''https://api.weatherapi.com/v1/current.json?q=10001&key=k'') =
     (Some [''code'' \<mapsto> VFloat64 (Fin 1006),
            ''message'' \<mapsto> VString ''No matching location found.''],
      Some (Errorf ''error fetching weather info, code: %d, message: %s''
              [AAny (VFloat64 (Fin 1006)), AAny (VString ''No matching location found.'')])) \<and>
   fst (getWeatherBodyOrCode (mock_world (reply 500 error_doc) (reply 404 (VMap Map.empty))
          (celsius 0))
          ''https://api.weatherapi.com/v1/astronomy.json?q=10001&dt=2024-05-01&key=k'') =
     (None, Some (Errorf ''request failed with code %d, and no code in response body''
                    [AInt 404])) \<and>
   fst (getWeatherBodyOrCode (mock_world (reply 403 (VMap [''code'' \<mapsto> VFloat64 (Fin 2008)]))
          (reply 200 astronomy_doc) (celsius 0))
          ''https://api.weatherapi.com/v1/current.json?q=10001&key=k'') =
     (None, Some (Errorf ''request failed with code %d, and no message in response body''
                    [AInt 403]))"
proof -
  let ?w = "mock_world (reply 500 error_doc) (reply 404 (VMap Map.empty)) (celsius 0)"
  let ?w' = "mock_world (reply 403 (VMap [''code'' \<mapsto> VFloat64 (Fin 2008)]))
               (reply 200 astronomy_doc) (celsius 0)"
  let ?cur = "''https://api.weatherapi.com/v1/current.json?q=10001&key=k''"
  let ?ast = "''https://api.weatherapi.com/v1/astronomy.json?q=10001&dt=2024-05-01&key=k''"
  let ?r1 = "\<lparr>StatusCode = 500, Body = Inr (JSON error_doc)\<rparr>"
  let ?r2 = "\<lparr>StatusCode = 404, Body = Inr (JSON (VMap Map.empty))\<rparr>"
  let ?r3 = "\<lparr>StatusCode = 403, Body = Inr (JSON (VMap [''code'' \<mapsto> VFloat64 (Fin 2008)]))\<rparr>"
  have n: "http_NewRequest ?w ?cur = None" "http_NewRequest ?w ?ast = None"
    "http_NewRequest ?w' ?cur = None"
    by (simp_all add: mock_world_sel)
  have d1: "client_Do ?w ?cur = Inr ?r1" by (simp add: mock_world_sel reply_def)
  have d2: "client_Do ?w ?ast = Inr ?r2" by (simp add: mock_world_sel reply_def)
  have d3: "client_Do ?w' ?cur = Inr ?r3" by (simp add: mock_world_sel reply_def)
  have b1: "Body ?r1 = Inr (JSON (VMap [''code'' \<mapsto> VFloat64 (Fin 1006),
              ''message'' \<mapsto> VString ''No matching location found.'']))"
    by (simp add: error_doc_def)
  have b2: "Body ?r2 = Inr (JSON (VMap Map.empty))" by simp
  have b3: "Body ?r3 = Inr (JSON (VMap [''code'' \<mapsto> VFloat64 (Fin 2008)]))" by simp
  from getWeatherBodyOrCode_status [OF n(1) d1 b1]
       getWeatherBodyOrCode_status [OF n(2) d2 b2]
       getWeatherBodyOrCode_status [OF n(3) d3 b3]
  show ?thesis by simp
qed

text \<open>
  C7, as the code has it: once the body has been read, \<open>getWeatherBodyOrCode\<close> returns
  a nil map and the decoder's error whenever \<^verbatim>\<open>json.Unmarshal\<close> into the map returns
  an error, whatever the status. When the status is 200 and the body parses into a
  map, it returns that map and no error. The body \<open>null\<close> is no JSON object, and yet
  \<^verbatim>\<open>json.Unmarshal\<close> returns no error for it and leaves the map nil: with status 200
  the function then returns a nil map and no error, with any other status a nil map and
  the error of a missing code.
\<close>

theorem getWeatherBodyOrCode_decode:
  assumes "http_NewRequest w url = None"
    and "client_Do w url = Inr resp"
    and "Body resp = Inr body"
  shows "(\<forall>m e. json_Unmarshal body = (m, Some e) \<longrightarrow>
            fst (getWeatherBodyOrCode w url) = (None, Some e)) \<and>
         (\<forall>m. json_Unmarshal body = (Some m, None) \<and> StatusCode resp = 200 \<longrightarrow>
            fst (getWeatherBodyOrCode w url) = (Some m, None)) \<and>
         (body = JSON VNil \<longrightarrow> json_Unmarshal body = (None, None)) \<and>
         (json_Unmarshal body = (None, None) \<and> StatusCode resp = 200 \<longrightarrow>
            fst (getWeatherBodyOrCode w url) = (None, None)) \<and>
         (json_Unmarshal body = (None, None) \<and> StatusCode resp \<noteq> 200 \<longrightarrow>
            fst (getWeatherBodyOrCode w url) =
              (None, Some (Errorf ''request failed with code %d, and no code in response body''
                             [AInt (StatusCode resp)])))"
  using assms by (auto simp: getWeatherBodyOrCode_def lookup_def)

theorem getWeatherBodyOrCode_decode_witness:
  "fst (getWeatherBodyOrCode
          (mock_world (Inr \<lparr>StatusCode = 200, Body = Inr (Rejected (Foreign ''unexpected end of JSON input''))\<rparr>)
             (reply 500 (VSlice [])) (celsius 0))
          ''https://api.weatherapi.com/v1/current.json?q=10001&key=k'') =
     (None, Some (Foreign ''unexpected end of JSON input'')) \<and>
   fst (getWeatherBodyOrCode
          (mock_world (Inr \<lparr>StatusCode = 200, Body = Inr (Rejected (Foreign ''unexpected end of JSON input''))\<rparr>)
             (reply 500 (VSlice [])) (celsius 0))
          ''https://api.weatherapi.com/v1/astronomy.json?q=10001&dt=2024-05-01&key=k'') =
     (None, Some UnmarshalTypeError) \<and>
   fst (getWeatherBodyOrCode
          (mock_world (reply 200 astronomy_doc) (reply 503 VNil) (celsius 0))
          ''https://api.weatherapi.com/v1/current.json?q=10001&key=k'') =
     (Some [''astronomy'' \<mapsto> VMap [''astro'' \<mapsto> VMap [''is_sun_up'' \<mapsto> VFloat64 (Fin 1)]]],
      None) \<and>
   fst (getWeatherBodyOrCode
          (mock_world (reply 200 astronomy_doc) (reply 503 VNil) (celsius 0))
          ''https://api.weatherapi.com/v1/astronomy.json?q=10001&dt=2024-05-01&key=k'') =
     (None, Some (Errorf ''request failed with code %d, and no code in response body''
                    [AInt 503])) \<and>
   fst (getWeatherBodyOrCode
          (mock_world (Inr \<lparr>StatusCode = 200, Body = Inr (Rejected UnmarshalTypeError)\<rparr>)
             (reply 200 VNil) (celsius 0))
          ''https://api.weatherapi.com/v1/current.json?q=10001&key=k'') =
     (None, Some UnmarshalTypeError) \<and>
   fst (getWeatherBodyOrCode
          (mock_world (Inr \<lparr>StatusCode = 200, Body = Inr (Rejected UnmarshalTypeError)\<rparr>)
             (reply 200 VNil) (celsius 0))
          ''https://api.weatherapi.com/v1/astronomy.json?q=10001&dt=2024-05-01&key=k'') =
     (None, None)"
proof -
  let ?bad = "Rejected (Foreign ''unexpected end of JSON input'')"
  let ?w = "mock_world (Inr \<lparr>StatusCode = 200, Body = Inr ?bad\<rparr>)
              (reply 500 (VSlice [])) (celsius 0)"
  let ?w' = "mock_world (reply 200 astronomy_doc) (reply 503 VNil) (celsius 0)"
  let ?w'' = "mock_world (Inr \<lparr>StatusCode = 200, Body = Inr (Rejected UnmarshalTypeError)\<rparr>)
                (reply 200 VNil) (celsius 0)"
  let ?cur = "''https://api.weatherapi.com/v1/current.json?q=10001&key=k''"
  let ?ast = "''https://api.weatherapi.com/v1/astronomy.json?q=10001&dt=2024-05-01&key=k''"
  have n: "http_NewRequest ?w ?cur = None" "http_NewRequest ?w ?ast = None"
    "http_NewRequest ?w' ?cur = None" "http_NewRequest ?w' ?ast = None"
    "http_NewRequest ?w'' ?cur = None" "http_NewRequest ?w'' ?ast = None"
    by (simp_all add: mock_world_sel)
  have d1: "client_Do ?w ?cur = Inr \<lparr>StatusCode = 200, Body = Inr ?bad\<rparr>"
    by (simp add: mock_world_sel)
  have d2: "client_Do ?w ?ast = Inr \<lparr>StatusCode = 500, Body = Inr (JSON (VSlice []))\<rparr>"
    by (simp add: mock_world_sel reply_def)
  have d3: "client_Do ?w' ?cur = Inr \<lparr>StatusCode = 200, Body = Inr (JSON astronomy_doc)\<rparr>"
    by (simp add: mock_world_sel reply_def)
  have d4: "client_Do ?w' ?ast = Inr \<lparr>StatusCode = 503, Body = Inr (JSON VNil)\<rparr>"
    by (simp add: mock_world_sel reply_def)
  have d5: "client_Do ?w'' ?cur =
      Inr \<lparr>StatusCode = 200, Body = Inr (Rejected UnmarshalTypeError)\<rparr>"
    by (simp add: mock_world_sel)
  have d6: "client_Do ?w'' ?ast = Inr \<lparr>StatusCode = 200, Body = Inr (JSON VNil)\<rparr>"
    by (simp add: mock_world_sel reply_def)
  have r1: "fst (getWeatherBodyOrCode ?w ?cur) =
      (None, Some (Foreign ''unexpected end of JSON input''))"
    using getWeatherBodyOrCode_decode [OF n(1) d1, of ?bad] by simp
  have r2: "fst (getWeatherBodyOrCode ?w ?ast) = (None, Some UnmarshalTypeError)"
    using getWeatherBodyOrCode_decode [OF n(2) d2, of "JSON (VSlice [])"] by simp
  have r3: "fst (getWeatherBodyOrCode ?w' ?cur) = (Some (un_VMap astronomy_doc), None)"
    using getWeatherBodyOrCode_decode [OF n(3) d3, of "JSON astronomy_doc"]
    by (simp add: astronomy_doc_def)
  have r4: "fst (getWeatherBodyOrCode ?w' ?ast) =
      (None, Some (Errorf ''request failed with code %d, and no code in response body''
                     [AInt 503]))"
    using getWeatherBodyOrCode_decode [OF n(4) d4, of "JSON VNil"] by simp
  have r5: "fst (getWeatherBodyOrCode ?w'' ?cur) = (None, Some UnmarshalTypeError)"
    using getWeatherBodyOrCode_decode [OF n(5) d5, of "Rejected UnmarshalTypeError"] by simp
  have r6: "fst (getWeatherBodyOrCode ?w'' ?ast) = (None, None)"
    using getWeatherBodyOrCode_decode [OF n(6) d6, of "JSON VNil"] by simp
  from r1 r2 r3 r4 r5 r6 show ?thesis
    by (simp add: astronomy_doc_def)
qed

text \<open>
  C7 as it is worded does not hold for the body \<open>null\<close>: with status 200 that body is
  not a JSON object, and yet the fetch reports no error; it returns a nil map and a nil
  error.
\<close>

theorem getWeatherBodyOrCode_null_body:
  "getWeatherBodyOrCode (mock_world (reply 200 VNil) (reply 200 astronomy_doc) (celsius 0))
     ''https://api.weatherapi.com/v1/current.json?q=10001&key=k'' =
   ((None, None), [HTTPGet ''https://api.weatherapi.com/v1/current.json?q=10001&key=k''])"
  by (simp add: getWeatherBodyOrCode_def mock_world_sel reply_def lookup_def)

section \<open>Responses of an unexpected shape\<close>

text \<open>
  C6, as the code has it: after two successful fetches \<open>Readings\<close> ends in a panic,
  before the dependency sensor is called, whenever \<open>current\<close> or \<open>current.condition\<close>
  is absent or no object, \<open>current.cloud\<close> is absent or no float64, or \<open>astronomy\<close> or
  \<open>astronomy.astro\<close> is absent or no object. When none of these is the case and the
  reading of the dependency sensor succeeds, \<open>Readings\<close> ends in a panic if
  \<open>degrees_celsius\<close> is absent or no float64, and otherwise returns the mapping
  \<open>composite\<close> and no error. The fields \<open>current.temp_f\<close>, \<open>current.condition.text\<close>,
  \<open>current.condition.code\<close>, \<open>current.precip_in\<close> and \<open>astronomy.astro.is_sun_up\<close> are not
  checked: the mapping holds whatever value is found under each of them, nil when the
  field is absent.
\<close>

theorem Readings_panics:
  assumes "getCurrentWeather w s = ((r1, None), t1)"
    and "getCurrentAstronomy w s = ((r2, None), t2)"
  shows "let cur = index r1 ''current'';
             astro = field (index r2 ''astronomy'') ''astro'';
             shape = (is_VMap cur \<and> is_VMap (field cur ''condition'') \<and>
                      is_VFloat64 (field cur ''cloud'') \<and>
                      is_VMap (index r2 ''astronomy'') \<and> is_VMap astro)
         in (\<not> shape \<longrightarrow>
               (\<exists>t. Readings w s ctx extra = (Panic (TypeAssertion t), t1 @ t2)) \<and>
               (\<forall>ev \<in> set (t1 @ t2). \<not> is_SensorReadings ev)) \<and>
            (\<forall>ts rd. shape \<and> temperatureSensor s = Some ts \<and>
                      sensor_Readings w ts ctx None = (rd, None) \<longrightarrow>
               (\<not> is_VFloat64 (index rd ''degrees_celsius'') \<longrightarrow>
                  fst (Readings w s ctx extra) = Panic (TypeAssertion ''float64'')) \<and>
               (is_VFloat64 (index rd ''degrees_celsius'') \<longrightarrow>
                  fst (Readings w s ctx extra) =
                    Return (Some (composite cur astro
                                    (un_VFloat64 (index rd ''degrees_celsius''))), None)))"
proof -
  from fetch_ok_traces(1) [OF assms(1)] fetch_ok_traces(2) [OF assms(2)]
  have "\<forall>ev \<in> set (t1 @ t2). \<not> is_SensorReadings ev"
    by simp
  then show ?thesis
    unfolding Readings_fetched [OF assms, of ctx extra]
    by (auto simp: Let_def)
qed

theorem Readings_panics_witness:
  "(\<exists>t. Readings (mock_world (reply 200 (VMap [''current'' \<mapsto> VString ''sunny'']))
       (reply 200 astronomy_doc) (celsius 0)) mock_adapter (Context ''c'') None =
     (Panic (TypeAssertion t),
      [HTTPGet ''https://api.weatherapi.com/v1/current.json?q=10001&key=k'',
       HTTPGet ''https://api.weatherapi.com/v1/astronomy.json?q=10001&dt=2024-05-01&key=k''])) \<and>
   fst (Readings (mock_world (reply 200 current_doc) (reply 200 astronomy_doc)
          (Some [''degrees_celsius'' \<mapsto> VOther ''int''], None))
          mock_adapter (Context ''c'') None) = Panic (TypeAssertion ''float64'') \<and>
   fst (Readings (mock_world (reply 200 current_doc) (reply 200 astronomy_doc) (celsius 100))
          mock_adapter (Context ''c'') None) =
     Return (Some (mock_output (VFloat64 (Fin 70)) 212), None)"
proof -
  let ?cur = "''https://api.weatherapi.com/v1/current.json?q=10001&key=k''"
  let ?ast = "''https://api.weatherapi.com/v1/astronomy.json?q=10001&dt=2024-05-01&key=k''"
  let ?w1 = "mock_world (reply 200 (VMap [''current'' \<mapsto> VString ''sunny'']))
               (reply 200 astronomy_doc) (celsius 0)"
  let ?w2 = "mock_world (reply 200 current_doc) (reply 200 astronomy_doc)
               (Some [''degrees_celsius'' \<mapsto> VOther ''int''], None)"
  let ?w3 = "mock_world (reply 200 current_doc) (reply 200 astronomy_doc) (celsius 100)"
  have c1: "getCurrentWeather ?w1 mock_adapter =
      ((Some [''current'' \<mapsto> VString ''sunny''], None), [HTTPGet ?cur])"
    by (simp add: mock_simps)
  have a1: "getCurrentAstronomy ?w1 mock_adapter =
      ((Some (un_VMap astronomy_doc), None), [HTTPGet ?ast])"
    by (simp add: mock_simps)
  have c2: "getCurrentWeather ?w2 mock_adapter =
      ((Some (un_VMap current_doc), None), [HTTPGet ?cur])"
    by (simp add: mock_simps)
  have a2: "getCurrentAstronomy ?w2 mock_adapter =
      ((Some (un_VMap astronomy_doc), None), [HTTPGet ?ast])"
    by (simp add: mock_simps)
  have c3: "getCurrentWeather ?w3 mock_adapter =
      ((Some (un_VMap current_doc), None), [HTTPGet ?cur])"
    by (simp add: mock_simps)
  have a3: "getCurrentAstronomy ?w3 mock_adapter =
      ((Some (un_VMap astronomy_doc), None), [HTTPGet ?ast])"
    by (simp add: mock_simps)
  have out: "composite (index (Some (un_VMap current_doc)) ''current'')
       (field (index (Some (un_VMap astronomy_doc)) ''astronomy'') ''astro'') (Fin 100) =
     mock_output (VFloat64 (Fin 70)) 212"
    by (simp add: composite_def mock_output_def field_def index_def lookup_def current_doc_def
          astronomy_doc_def fahrenheit_of_100)
  from Readings_panics [OF c1 a1, of "Context ''c''" None]
       Readings_panics [OF c2 a2, of "Context ''c''" None]
       Readings_panics [OF c3 a3, of "Context ''c''" None]
       out
  show ?thesis
    by (simp add: Let_def field_def index_def lookup_def current_doc_def astronomy_doc_def
          mock_world_sel mock_sensor celsius_def)
qed

text \<open>
  C6 as it is worded does not hold for a 200 response without \<open>current.temp_f\<close>: the
  reading is returned without an error and with a nil \<open>outside_f\<close>.
\<close>

theorem Readings_missing_temp_f:
  "Readings (mock_world (reply 200 no_temp_doc) (reply 200 astronomy_doc) (celsius 0))
     mock_adapter (Context ''c'') None =
   (Return (Some (mock_output VNil 32), None), mock_trace)"
  by (simp add: mock_simps no_temp_doc_def mock_output_def mock_trace_def fahrenheit_of_0)

section \<open>Reconfiguration\<close>

lemma Reconfigure_conversion_fails:
  "resource_NativeConfig k conf = (c, Some e) \<Longrightarrow>
   Reconfigure k s ctx deps conf = (Return (Some e), s)"
  by (cases c) (simp_all add: Reconfigure_def)

lemma Reconfigure_nil_config:
  "resource_NativeConfig k conf = (None, None) \<Longrightarrow>
   Reconfigure k s ctx deps conf = (Panic NilDereference, s)"
  by (simp add: Reconfigure_def)

lemma Reconfigure_lookup_fails:
  "resource_NativeConfig k conf = (Some c, None) \<Longrightarrow>
   sensor_FromDependencies k deps (TemperatureSensor c) = (ts, Some e) \<Longrightarrow>
   Reconfigure k s ctx deps conf =
     (Return (Some (Wrapf e ''unable to get temperature sensor %v for weather sensor''
                      [AString (TemperatureSensor c)])),
      s\<lparr>temperatureSensor := ts\<rparr>)"
  by (simp add: Reconfigure_def)

lemma Reconfigure_succeeds:
  "resource_NativeConfig k conf = (Some c, None) \<Longrightarrow>
   sensor_FromDependencies k deps (TemperatureSensor c) = (ts, None) \<Longrightarrow>
   Reconfigure k s ctx deps conf =
     (Return None, s\<lparr>temperatureSensor := ts, apiKey := APIKey c, zipcode := Zipcode c\<rparr>)"
  by (simp add: Reconfigure_def)

text \<open>
  C9: \<open>Reconfigure\<close> returns an error exactly when the conversion of the configuration
  returns one or, after a conversion to a configuration, the lookup of the temperature
  sensor among the dependencies returns one. Whenever it returns an error, \<open>apiKey\<close> and
  \<open>zipcode\<close> are what they were before the call; when the conversion failed the whole
  adapter is unchanged, and when the lookup failed \<open>temperatureSensor\<close> has all the same
  been set to what the lookup returned. Only when \<open>Reconfigure\<close> returns no error are
  \<open>apiKey\<close> and \<open>zipcode\<close> set, to the values of the configuration.
\<close>

theorem Reconfigure_keeps_credentials_on_error:
  "(\<forall>e s'. Reconfigure k s ctx deps conf = (Return (Some e), s') \<longrightarrow>
      apiKey s' = apiKey s \<and> zipcode s' = zipcode s) \<and>
   (\<forall>c e. resource_NativeConfig k conf = (c, Some e) \<longrightarrow>
      Reconfigure k s ctx deps conf = (Return (Some e), s)) \<and>
   (\<forall>c ts e. resource_NativeConfig k conf = (Some c, None) \<and>
        sensor_FromDependencies k deps (TemperatureSensor c) = (ts, Some e) \<longrightarrow>
      Reconfigure k s ctx deps conf =
        (Return (Some (Wrapf e ''unable to get temperature sensor %v for weather sensor''
                         [AString (TemperatureSensor c)])),
         s\<lparr>temperatureSensor := ts\<rparr>)) \<and>
   (\<forall>c ts. resource_NativeConfig k conf = (Some c, None) \<and>
        sensor_FromDependencies k deps (TemperatureSensor c) = (ts, None) \<longrightarrow>
      Reconfigure k s ctx deps conf =
        (Return None, s\<lparr>temperatureSensor := ts, apiKey := APIKey c, zipcode := Zipcode c\<rparr>)) \<and>
   (\<forall>s'. Reconfigure k s ctx deps conf = (Return None, s') \<longrightarrow>
      (\<exists>c. resource_NativeConfig k conf = (Some c, None) \<and>
           snd (sensor_FromDependencies k deps (TemperatureSensor c)) = None \<and>
           apiKey s' = APIKey c \<and> zipcode s' = Zipcode c))"
proof -
  obtain c e where conv: "resource_NativeConfig k conf = (c, e)"
    by (cases "resource_NativeConfig k conf")
  show ?thesis
  proof (cases e)
    case (Some err)
    with conv show ?thesis by (simp add: Reconfigure_conversion_fails)
  next
    case None
    note e = this
    show ?thesis
    proof (cases c)
      case None
      with conv e show ?thesis by (simp add: Reconfigure_nil_config)
    next
      case (Some sensorConfig)
      note conv' = conv [unfolded e Some]
      obtain ts err
        where dep: "sensor_FromDependencies k deps (TemperatureSensor sensorConfig) = (ts, err)"
        by (cases "sensor_FromDependencies k deps (TemperatureSensor sensorConfig)")
      show ?thesis
      proof (cases err)
        case None
        with conv' dep show ?thesis by (simp add: Reconfigure_succeeds)
      next
        case (Some e')
        with conv' dep show ?thesis by (simp add: Reconfigure_lookup_fails)
      qed
    qed
  qed
qed

theorem Reconfigure_keeps_credentials_on_error_witness:
  "Reconfigure mock_rdk mock_adapter (Context ''c'') [(''thermo'', Sensor ''thermo'')]
     (None, Some (Foreign ''incorrect config type'')) =
     (Return (Some (Foreign ''incorrect config type'')), mock_adapter) \<and>
   Reconfigure mock_rdk mock_adapter (Context ''c'') [] (Some mock_config, None) =
     (Return (Some (Wrapf (Foreign ''dependency not found'')
        ''unable to get temperature sensor %v for weather sensor'' [AString ''thermo''])),
      mock_adapter\<lparr>temperatureSensor := None\<rparr>) \<and>
   apiKey (mock_adapter\<lparr>temperatureSensor := None\<rparr>) = apiKey mock_adapter \<and>
   zipcode (mock_adapter\<lparr>temperatureSensor := None\<rparr>) = zipcode mock_adapter \<and>
   Reconfigure mock_rdk mock_adapter (Context ''c'') [(''thermo'', Sensor ''thermo'')]
     (Some mock_config, None) =
     (Return None,
      mock_adapter\<lparr>temperatureSensor := Some (Sensor ''thermo''), apiKey := ''k2'',
        zipcode := 94107\<rparr>)"
proof -
  have n1: "resource_NativeConfig mock_rdk (None, Some (Foreign ''incorrect config type'')) =
      (None, Some (Foreign ''incorrect config type''))"
    by (simp add: mock_rdk_def)
  have n2: "resource_NativeConfig mock_rdk (Some mock_config, None) = (Some mock_config, None)"
    by (simp add: mock_rdk_def)
  have f2: "sensor_FromDependencies mock_rdk [] (TemperatureSensor mock_config) =
      (None, Some (Foreign ''dependency not found''))"
    by (simp add: mock_rdk_def)
  have f3: "sensor_FromDependencies mock_rdk [(''thermo'', Sensor ''thermo'')]
      (TemperatureSensor mock_config) = (Some (Sensor ''thermo''), None)"
    by (simp add: mock_rdk_def mock_config_def)
  have r1: "Reconfigure mock_rdk mock_adapter (Context ''c'') [(''thermo'', Sensor ''thermo'')]
      (None, Some (Foreign ''incorrect config type'')) =
      (Return (Some (Foreign ''incorrect config type'')), mock_adapter)"
    using Reconfigure_keeps_credentials_on_error
            [of mock_rdk mock_adapter "Context ''c''" "[(''thermo'', Sensor ''thermo'')]"
                "(None, Some (Foreign ''incorrect config type''))"] n1
    by blast
  have r2: "Reconfigure mock_rdk mock_adapter (Context ''c'') [] (Some mock_config, None) =
      (Return (Some (Wrapf (Foreign ''dependency not found'')
         ''unable to get temperature sensor %v for weather sensor''
         [AString (TemperatureSensor mock_config)])),
       mock_adapter\<lparr>temperatureSensor := None\<rparr>)"
    using Reconfigure_keeps_credentials_on_error
            [of mock_rdk mock_adapter "Context ''c''" "[]" "(Some mock_config, None)"] n2 f2
    by blast
  have k2: "apiKey (mock_adapter\<lparr>temperatureSensor := None\<rparr>) = apiKey mock_adapter \<and>
      zipcode (mock_adapter\<lparr>temperatureSensor := None\<rparr>) = zipcode mock_adapter"
    using Reconfigure_keeps_credentials_on_error
            [of mock_rdk mock_adapter "Context ''c''" "[]" "(Some mock_config, None)"] r2
    by blast
  have r3: "Reconfigure mock_rdk mock_adapter (Context ''c'') [(''thermo'', Sensor ''thermo'')]
      (Some mock_config, None) =
      (Return None,
       mock_adapter\<lparr>temperatureSensor := Some (Sensor ''thermo''),
         apiKey := APIKey mock_config, zipcode := Zipcode mock_config\<rparr>)"
    using Reconfigure_keeps_credentials_on_error
            [of mock_rdk mock_adapter "Context ''c''" "[(''thermo'', Sensor ''thermo'')]"
                "(Some mock_config, None)"] n2 f3
    by blast
  from r1 r2 k2 r3 show ?thesis
    by (simp add: mock_config_def)
qed

end
